theory Spec2Isabelle
  imports Main "HOL-Library.Word"
begin

section \<open>Data model of the metastore interface\<close>

text \<open>
  The handler class of \<^verbatim>\<open>ThriftHiveMetastore_server.skeleton.cpp\<close> takes and returns the
  structures declared in \<^verbatim>\<open>ThriftHiveMetastore.h\<close>. That header is not part of the
  sources, so the structures below follow the data model of the specification (section 3).
  No handler body reads or writes a field of any of them.
\<close>

text \<open>Modelled from the spec: the struct \<^verbatim>\<open>Database\<close> of the missing header
  (a unique name, a description, an optional location hint).\<close>

record Database =
  database_name :: string
  database_description :: string
  database_location :: "string option"

text \<open>Modelled from the spec: the struct \<^verbatim>\<open>FieldSchema\<close> of the missing header
  (a name, a type name, an optional comment).\<close>

record FieldSchema =
  fs_name :: string
  fs_type :: string
  fs_comment :: "string option"

text \<open>Modelled from the spec: the struct \<^verbatim>\<open>Type\<close> of the missing header
  (a named type definition; a complex type references other types by name).\<close>

record Type =
  ty_name :: string
  ty_references :: "string list"

text \<open>Modelled from the spec: the struct \<^verbatim>\<open>Table\<close> of the missing header
  (database name, table name, columns, partition-key columns, location, properties).\<close>

record Table =
  tbl_dbName :: string
  tbl_tableName :: string
  tbl_fields :: "FieldSchema list"
  tbl_partitionKeys :: "FieldSchema list"
  tbl_location :: string
  tbl_parameters :: "(string \<times> string) list"

text \<open>Modelled from the spec: the struct \<^verbatim>\<open>Partition\<close> of the missing header
  (database name, table name, ordered partition values, location, properties and the
  creation and modification timestamps).\<close>

record Partition =
  part_dbName :: string
  part_tableName :: string
  part_values :: "string list"
  part_location :: string
  part_parameters :: "(string \<times> string) list"
  part_createTime :: int
  part_lastModifiedTime :: int

text \<open>Modelled from the spec: the failure taxonomy of section 7. The exception classes
  of the interface are declared in the missing header; the source file itself contains
  no \<^verbatim>\<open>throw\<close>.\<close>

datatype error =
    NotFound | AlreadyExists | NotEmpty | InvalidSchema | InvalidOperation
  | UnknownReference | CyclicDependency | StillReferenced | Protected
  | MalformedIdentifier | Unavailable

section \<open>The handler \<^verbatim>\<open>ThriftHiveMetastoreHandler\<close>\<close>

text \<open>
  The class declares no data member and its constructor body is empty, so a handler
  object is a value of a type with one element. The only effect of a handler body is
  the \<^verbatim>\<open>printf\<close> of its own name; the state threaded through the calls is the handler
  object together with the text written to standard output so far.
\<close>

datatype ThriftHiveMetastoreHandler = ThriftHiveMetastoreHandler

record world =
  handler :: ThriftHiveMetastoreHandler
  stdout :: string

definition printf :: "string \<Rightarrow> world \<Rightarrow> world" where
  "printf s w = w\<lparr>stdout := stdout w @ s\<rparr>"

text \<open>The format strings of the source all end in a newline.\<close>

definition nl :: string where
  "nl = [CHR 0x0A]"

text \<open>
  Results. A member function of return type \<^verbatim>\<open>void\<close> with a reference parameter
  \<^verbatim>\<open>_return\<close> yields \<open>Inr r\<close>, where \<open>r\<close> is the content of \<^verbatim>\<open>_return\<close> when the body
  ends; one without such a parameter yields \<open>Inr ()\<close>. A member function of return type
  \<^verbatim>\<open>bool\<close> yields \<open>Inr (Some b)\<close> when it executes \<^verbatim>\<open>return b\<close> and \<open>Inr None\<close> when
  control reaches the end of the body without a return statement. \<open>Inl e\<close> is an
  exception leaving the body.
\<close>

type_synonym 'a result = "(error + 'a) \<times> world"

definition create_database :: "string \<Rightarrow> string \<Rightarrow> world \<Rightarrow> bool option result" where
  "create_database name description w = (Inr None, printf (''create_database'' @ nl) w)"

definition get_database :: "Database \<Rightarrow> string \<Rightarrow> world \<Rightarrow> Database result" where
  "get_database return name w = (Inr return, printf (''get_database'' @ nl) w)"

definition drop_database :: "string \<Rightarrow> world \<Rightarrow> bool option result" where
  "drop_database name w = (Inr None, printf (''drop_database'' @ nl) w)"

definition get_databases :: "string list \<Rightarrow> world \<Rightarrow> string list result" where
  "get_databases return w = (Inr return, printf (''get_databases'' @ nl) w)"

definition get_type :: "Type \<Rightarrow> string \<Rightarrow> world \<Rightarrow> Type result" where
  "get_type return name w = (Inr return, printf (''get_type'' @ nl) w)"

definition create_type :: "Type \<Rightarrow> world \<Rightarrow> bool option result" where
  "create_type ty w = (Inr None, printf (''create_type'' @ nl) w)"

definition drop_type :: "string \<Rightarrow> world \<Rightarrow> bool option result" where
  "drop_type ty w = (Inr None, printf (''drop_type'' @ nl) w)"

definition get_type_all ::
  "(string \<times> Type) list \<Rightarrow> string \<Rightarrow> world \<Rightarrow> (string \<times> Type) list result" where
  "get_type_all return name w = (Inr return, printf (''get_type_all'' @ nl) w)"

definition get_fields ::
  "FieldSchema list \<Rightarrow> string \<Rightarrow> string \<Rightarrow> world \<Rightarrow> FieldSchema list result" where
  "get_fields return db_name table_name w = (Inr return, printf (''get_fields'' @ nl) w)"

definition get_schema ::
  "FieldSchema list \<Rightarrow> string \<Rightarrow> string \<Rightarrow> world \<Rightarrow> FieldSchema list result" where
  "get_schema return db_name table_name w = (Inr return, printf (''get_schema'' @ nl) w)"

definition create_table :: "Table \<Rightarrow> world \<Rightarrow> unit result" where
  "create_table tbl w = (Inr (), printf (''create_table'' @ nl) w)"

definition drop_table :: "string \<Rightarrow> string \<Rightarrow> bool \<Rightarrow> world \<Rightarrow> unit result" where
  "drop_table dbname name deleteData w = (Inr (), printf (''drop_table'' @ nl) w)"

definition get_tables ::
  "string list \<Rightarrow> string \<Rightarrow> string \<Rightarrow> world \<Rightarrow> string list result" where
  "get_tables return db_name pattern w = (Inr return, printf (''get_tables'' @ nl) w)"

definition get_table :: "Table \<Rightarrow> string \<Rightarrow> string \<Rightarrow> world \<Rightarrow> Table result" where
  "get_table return dbname tbl_name w = (Inr return, printf (''get_table'' @ nl) w)"

definition alter_table :: "string \<Rightarrow> string \<Rightarrow> Table \<Rightarrow> world \<Rightarrow> unit result" where
  "alter_table dbname tbl_name new_tbl w = (Inr (), printf (''alter_table'' @ nl) w)"

definition add_partition :: "Partition \<Rightarrow> Partition \<Rightarrow> world \<Rightarrow> Partition result" where
  "add_partition return new_part w = (Inr return, printf (''add_partition'' @ nl) w)"

definition append_partition ::
  "Partition \<Rightarrow> string \<Rightarrow> string \<Rightarrow> string list \<Rightarrow> world \<Rightarrow> Partition result" where
  "append_partition return db_name tbl_name part_vals w =
     (Inr return, printf (''append_partition'' @ nl) w)"

definition append_partition_by_name ::
  "Partition \<Rightarrow> string \<Rightarrow> string \<Rightarrow> string \<Rightarrow> world \<Rightarrow> Partition result" where
  "append_partition_by_name return db_name tbl_name part_name w =
     (Inr return, printf (''append_partition_by_name'' @ nl) w)"

definition drop_partition ::
  "string \<Rightarrow> string \<Rightarrow> string list \<Rightarrow> bool \<Rightarrow> world \<Rightarrow> bool option result" where
  "drop_partition db_name tbl_name part_vals deleteData w =
     (Inr None, printf (''drop_partition'' @ nl) w)"

definition drop_partition_by_name ::
  "string \<Rightarrow> string \<Rightarrow> string \<Rightarrow> bool \<Rightarrow> world \<Rightarrow> bool option result" where
  "drop_partition_by_name db_name tbl_name part_name deleteData w =
     (Inr None, printf (''drop_partition_by_name'' @ nl) w)"

definition get_partition ::
  "Partition \<Rightarrow> string \<Rightarrow> string \<Rightarrow> string list \<Rightarrow> world \<Rightarrow> Partition result" where
  "get_partition return db_name tbl_name part_vals w =
     (Inr return, printf (''get_partition'' @ nl) w)"

definition get_partition_by_name ::
  "Partition \<Rightarrow> string \<Rightarrow> string \<Rightarrow> string \<Rightarrow> world \<Rightarrow> Partition result" where
  "get_partition_by_name return db_name tbl_name part_name w =
     (Inr return, printf (''get_partition_by_name'' @ nl) w)"

text \<open>The limit \<^verbatim>\<open>max_parts\<close> is an \<^verbatim>\<open>int16_t\<close>: a 16-bit word read as signed.\<close>

definition get_partitions ::
  "Partition list \<Rightarrow> string \<Rightarrow> string \<Rightarrow> 16 word \<Rightarrow> world \<Rightarrow> Partition list result" where
  "get_partitions return db_name tbl_name max_parts w =
     (Inr return, printf (''get_partitions'' @ nl) w)"

definition get_partition_names ::
  "string list \<Rightarrow> string \<Rightarrow> string \<Rightarrow> 16 word \<Rightarrow> world \<Rightarrow> string list result" where
  "get_partition_names return db_name tbl_name max_parts w =
     (Inr return, printf (''get_partition_names'' @ nl) w)"

definition get_partitions_ps ::
  "Partition list \<Rightarrow> string \<Rightarrow> string \<Rightarrow> string list \<Rightarrow> 16 word \<Rightarrow> world
     \<Rightarrow> Partition list result" where
  "get_partitions_ps return db_name tbl_name part_vals max_parts w =
     (Inr return, printf (''get_partitions_ps'' @ nl) w)"

definition get_partition_names_ps ::
  "string list \<Rightarrow> string \<Rightarrow> string \<Rightarrow> string list \<Rightarrow> 16 word \<Rightarrow> world
     \<Rightarrow> string list result" where
  "get_partition_names_ps return db_name tbl_name part_vals max_parts w =
     (Inr return, printf (''get_partition_names_ps'' @ nl) w)"

definition alter_partition :: "string \<Rightarrow> string \<Rightarrow> Partition \<Rightarrow> world \<Rightarrow> unit result" where
  "alter_partition db_name tbl_name new_part w =
     (Inr (), printf (''alter_partition'' @ nl) w)"

definition get_config_value :: "string \<Rightarrow> string \<Rightarrow> string \<Rightarrow> world \<Rightarrow> string result" where
  "get_config_value return name defaultValue w =
     (Inr return, printf (''get_config_value'' @ nl) w)"

section \<open>The entry point \<^verbatim>\<open>main\<close>\<close>

text \<open>
  \<^verbatim>\<open>main\<close> builds five objects with \<^verbatim>\<open>new\<close>, passes four of them to the constructor
  of \<^verbatim>\<open>TSimpleServer\<close>, calls \<^verbatim>\<open>serve\<close> on the server and returns 0. The objects are
  modelled as the constructor terms that build them. \<^verbatim>\<open>serve\<close> belongs to the Thrift
  library: it is a parameter here, and \<open>None\<close> stands for a call that does not return.
\<close>

datatype object =
    NewThriftHiveMetastoreHandler ThriftHiveMetastoreHandler
  | ThriftHiveMetastoreProcessor object
  | TServerSocket int
  | TBufferedTransportFactory
  | TBinaryProtocolFactory
  | TSimpleServer object object object object

definition main_server :: "int \<Rightarrow> string list \<Rightarrow> object" where
  "main_server argc argv =
     (let port = 9090;
          handler = NewThriftHiveMetastoreHandler ThriftHiveMetastoreHandler;
          processor = ThriftHiveMetastoreProcessor handler;
          serverTransport = TServerSocket port;
          transportFactory = TBufferedTransportFactory;
          protocolFactory = TBinaryProtocolFactory
      in TSimpleServer processor serverTransport transportFactory protocolFactory)"

definition main :: "(object \<Rightarrow> unit option) \<Rightarrow> int \<Rightarrow> string list \<Rightarrow> int option" where
  "main serve argc argv =
     (case serve (main_server argc argv) of None \<Rightarrow> None | Some _ \<Rightarrow> Some 0)"

section \<open>The Identifier Codec\<close>

text \<open>
  The source file contains no encoder or decoder of partition names: the stubs
  \<^verbatim>\<open>get_partition_by_name\<close>, \<^verbatim>\<open>append_partition_by_name\<close> and
  \<^verbatim>\<open>drop_partition_by_name\<close> receive a name and never look at it. The codec below is
  the one the specification describes (sections 3 and 4.1).
\<close>

text \<open>Modelled from the spec: which characters URL-escaping leaves as they are. The
  spec says only "URL-escaped"; these are the letters, the digits and \<^verbatim>\<open>- . _ ~\<close>, the
  characters that percent-encoding never escapes.\<close>

definition unreserved :: "char \<Rightarrow> bool" where
  "unreserved c =
     (let n = (of_char c :: nat)
      in (48 \<le> n \<and> n \<le> 57) \<or> (65 \<le> n \<and> n \<le> 90) \<or> (97 \<le> n \<and> n \<le> 122)
         \<or> c = CHR ''-'' \<or> c = CHR ''.'' \<or> c = CHR ''_'' \<or> c = CHR ''~'')"

definition hex_digit :: "nat \<Rightarrow> char" where
  "hex_digit n = (if n < 10 then char_of (48 + n) else char_of (55 + n))"

text \<open>Modelled from the spec: the escaping of one component ("URL-escaped per
  component"): every other character becomes \<^verbatim>\<open>%\<close> and its two hexadecimal digits.\<close>

definition escape_char :: "char \<Rightarrow> string" where
  "escape_char c =
     (if unreserved c then [c]
      else [CHR ''%'', hex_digit (of_char c div 16), hex_digit (of_char c mod 16)])"

definition escape :: "string \<Rightarrow> string" where
  "escape s = concat (map escape_char s)"

definition unhex :: "char \<Rightarrow> nat option" where
  "unhex c =
     (let n = (of_char c :: nat)
      in if 48 \<le> n \<and> n \<le> 57 then Some (n - 48)
         else if 65 \<le> n \<and> n \<le> 70 then Some (n - 55)
         else if 97 \<le> n \<and> n \<le> 102 then Some (n - 87)
         else None)"

text \<open>Modelled from the spec: unescaping fails with \<open>MalformedIdentifier\<close> "when the
  escaped structure is invalid", that is when \<^verbatim>\<open>%\<close> is not followed by two hexadecimal
  digits.\<close>

fun unescape :: "string \<Rightarrow> error + string" where
  "unescape [] = Inr []"
| "unescape (c # cs) =
     (if c = CHR ''%'' then
        (case cs of
           h # l # rest \<Rightarrow>
             (case (unhex h, unhex l) of
                (Some a, Some b) \<Rightarrow>
                  (case unescape rest of
                     Inl e \<Rightarrow> Inl e
                   | Inr s \<Rightarrow> Inr (char_of (16 * a + b) # s))
              | _ \<Rightarrow> Inl MalformedIdentifier)
         | _ \<Rightarrow> Inl MalformedIdentifier)
      else
        (case unescape cs of Inl e \<Rightarrow> Inl e | Inr s \<Rightarrow> Inr (c # s)))"

fun join :: "char \<Rightarrow> string list \<Rightarrow> string" where
  "join sep [] = []"
| "join sep [x] = x"
| "join sep (x # y # ys) = x @ sep # join sep (y # ys)"

fun split_on :: "char \<Rightarrow> string \<Rightarrow> string list" where
  "split_on sep [] = [[]]"
| "split_on sep (c # cs) =
     (case split_on sep cs of
        [] \<Rightarrow> (if c = sep then [[], []] else [[c]])
      | x # xs \<Rightarrow> (if c = sep then [] # x # xs else (c # x) # xs))"

text \<open>Modelled from the spec: \<^verbatim>\<open>encode(orderedPartitionKeyNames, orderedValues)\<close>, "a
  deterministic string encoding of (key=value) pairs joined by a separator, URL-escaped
  per component". The spec does not name the separator: it is the parameter \<open>sep\<close>.\<close>

definition encode_pair :: "string \<Rightarrow> string \<Rightarrow> string" where
  "encode_pair k v = escape k @ CHR ''='' # escape v"

definition encode :: "char \<Rightarrow> string list \<Rightarrow> string list \<Rightarrow> string" where
  "encode sep keys vals = join sep (map2 encode_pair keys vals)"

text \<open>Modelled from the spec: \<^verbatim>\<open>decode(partitionName)\<close>, where the "caller supplies the
  table's partition-key names to validate arity and order" and decoding "fails with
  MalformedIdentifier when the escaped structure is invalid, or when the number of
  decoded components does not match the expected key arity". The empty name has no
  component.\<close>

definition decode_pair :: "string \<Rightarrow> string \<Rightarrow> error + string" where
  "decode_pair key component =
     (if CHR ''='' \<notin> set component then Inl MalformedIdentifier
      else
        (case unescape (takeWhile (\<lambda>c. c \<noteq> CHR ''='') component) of
           Inl e \<Rightarrow> Inl e
         | Inr k \<Rightarrow>
             if k \<noteq> key then Inl MalformedIdentifier
             else unescape (tl (dropWhile (\<lambda>c. c \<noteq> CHR ''='') component))))"

fun decode_all :: "string list \<Rightarrow> string list \<Rightarrow> error + string list" where
  "decode_all [] [] = Inr []"
| "decode_all (k # ks) (c # cs) =
     (case decode_pair k c of
        Inl e \<Rightarrow> Inl e
      | Inr v \<Rightarrow> (case decode_all ks cs of Inl e \<Rightarrow> Inl e | Inr vs \<Rightarrow> Inr (v # vs)))"
| "decode_all _ _ = Inl MalformedIdentifier"

definition decode :: "char \<Rightarrow> string list \<Rightarrow> string \<Rightarrow> error + string list" where
  "decode sep keys name =
     (let components = (if name = [] then [] else split_on sep name)
      in if length components \<noteq> length keys then Inl MalformedIdentifier
         else decode_all keys components)"

text \<open>A separator is usable when escaping removes it from every component: it is
  escaped itself, and it is neither the escape character nor the key/value delimiter.\<close>

definition valid_separator :: "char \<Rightarrow> bool" where
  "valid_separator sep = (\<not> unreserved sep \<and> sep \<noteq> CHR ''%'' \<and> sep \<noteq> CHR ''='')"

section \<open>Concrete inputs\<close>

text \<open>The state of a process that has constructed its handler and printed nothing.\<close>

definition initial_world :: world where
  "initial_world = \<lparr>handler = ThriftHiveMetastoreHandler, stdout = []\<rparr>"

text \<open>A table \<^verbatim>\<open>d.t\<close> with one column and the partition key \<^verbatim>\<open>ds\<close>, and its partition
  for the day 2024-01-01.\<close>

definition example_table :: Table where
  "example_table =
     \<lparr>tbl_dbName = ''d'', tbl_tableName = ''t'',
      tbl_fields = [\<lparr>fs_name = ''x'', fs_type = ''int'', fs_comment = None\<rparr>],
      tbl_partitionKeys = [\<lparr>fs_name = ''ds'', fs_type = ''string'', fs_comment = None\<rparr>],
      tbl_location = ''/warehouse/d/t'', tbl_parameters = []\<rparr>"

definition example_partition :: Partition where
  "example_partition =
     \<lparr>part_dbName = ''d'', part_tableName = ''t'', part_values = [''2024-01-01''],
      part_location = ''/warehouse/d/t/ds=2024-01-01'', part_parameters = [],
      part_createTime = 0, part_lastModifiedTime = 0\<rparr>"

text \<open>A result object as a caller holds it before the call: every field empty.\<close>

definition fresh_partition :: Partition where
  "fresh_partition =
     \<lparr>part_dbName = [], part_tableName = [], part_values = [], part_location = [],
      part_parameters = [], part_createTime = 0, part_lastModifiedTime = 0\<rparr>"

text \<open>The state after database \<^verbatim>\<open>d\<close> and table \<^verbatim>\<open>d.t\<close> were created and the
  partition was added to the table, each call handed an empty result object.\<close>

definition world_with_partition :: world where
  "world_with_partition =
     snd (add_partition fresh_partition example_partition
       (snd (create_table example_table
         (snd (create_database ''d'' [] initial_world)))))"

text \<open>Two types that reference each other, and one that references a type nobody
  defined.\<close>

definition type_A :: Type where
  "type_A = \<lparr>ty_name = ''A'', ty_references = [''B'']\<rparr>"

definition type_B :: Type where
  "type_B = \<lparr>ty_name = ''B'', ty_references = [''A'']\<rparr>"

definition type_dangling :: Type where
  "type_dangling = \<lparr>ty_name = ''C'', ty_references = [''undefined_type'']\<rparr>"

section \<open>Properties of the handler\<close>

lemma handler_printf: "handler (printf s w) = handler w"
  by (simp add: printf_def)

lemma stdout_printf: "stdout (printf s w) = stdout w @ s"
  by (simp add: printf_def)

lemmas bool_handler_defs =
  create_database_def drop_database_def create_type_def drop_type_def
  drop_partition_def drop_partition_by_name_def

lemmas query_handler_defs =
  get_database_def get_databases_def get_type_def get_type_all_def get_fields_def
  get_schema_def get_tables_def get_table_def get_partition_def
  get_partition_by_name_def get_partitions_def get_partition_names_def
  get_partitions_ps_def get_partition_names_ps_def get_config_value_def

lemmas void_handler_defs =
  create_table_def drop_table_def alter_table_def add_partition_def
  append_partition_def append_partition_by_name_def alter_partition_def

text \<open>
  Claim C8. Each of the fifteen query handlers returns normally with its \<^verbatim>\<open>_return\<close>
  parameter equal to the value the caller supplied, whatever the other arguments and
  the state are. The handler type has a single value (the class holds no state), and
  every one of the twenty-eight operations leaves the handler object as it was.
\<close>

theorem query_handlers_return_unchanged:
  "fst (get_database rdb name w) = Inr rdb
   \<and> fst (get_databases rnames w) = Inr rnames
   \<and> fst (get_type rty name w) = Inr rty
   \<and> fst (get_type_all rtys name w) = Inr rtys
   \<and> fst (get_fields rfs db tbl w) = Inr rfs
   \<and> fst (get_schema rfs db tbl w) = Inr rfs
   \<and> fst (get_tables rnames db pat w) = Inr rnames
   \<and> fst (get_table rtbl db tbl w) = Inr rtbl
   \<and> fst (get_partition rpart db tbl vals w) = Inr rpart
   \<and> fst (get_partition_by_name rpart db tbl pname w) = Inr rpart
   \<and> fst (get_partitions rparts db tbl m w) = Inr rparts
   \<and> fst (get_partition_names rnames db tbl m w) = Inr rnames
   \<and> fst (get_partitions_ps rparts db tbl vals m w) = Inr rparts
   \<and> fst (get_partition_names_ps rnames db tbl vals m w) = Inr rnames
   \<and> fst (get_config_value rstr name dflt w) = Inr rstr
   \<and> (h :: ThriftHiveMetastoreHandler) = ThriftHiveMetastoreHandler
   \<and> handler (snd (get_database rdb name w)) = handler w
   \<and> handler (snd (get_databases rnames w)) = handler w
   \<and> handler (snd (get_type rty name w)) = handler w
   \<and> handler (snd (get_type_all rtys name w)) = handler w
   \<and> handler (snd (get_fields rfs db tbl w)) = handler w
   \<and> handler (snd (get_schema rfs db tbl w)) = handler w
   \<and> handler (snd (get_tables rnames db pat w)) = handler w
   \<and> handler (snd (get_table rtbl db tbl w)) = handler w
   \<and> handler (snd (get_partition rpart db tbl vals w)) = handler w
   \<and> handler (snd (get_partition_by_name rpart db tbl pname w)) = handler w
   \<and> handler (snd (get_partitions rparts db tbl m w)) = handler w
   \<and> handler (snd (get_partition_names rnames db tbl m w)) = handler w
   \<and> handler (snd (get_partitions_ps rparts db tbl vals m w)) = handler w
   \<and> handler (snd (get_partition_names_ps rnames db tbl vals m w)) = handler w
   \<and> handler (snd (get_config_value rstr name dflt w)) = handler w
   \<and> handler (snd (create_database name descr w)) = handler w
   \<and> handler (snd (drop_database name w)) = handler w
   \<and> handler (snd (create_type ty w)) = handler w
   \<and> handler (snd (drop_type name w)) = handler w
   \<and> handler (snd (create_table t w)) = handler w
   \<and> handler (snd (drop_table db tbl del w)) = handler w
   \<and> handler (snd (alter_table db tbl t w)) = handler w
   \<and> handler (snd (add_partition rpart p w)) = handler w
   \<and> handler (snd (append_partition rpart db tbl vals w)) = handler w
   \<and> handler (snd (append_partition_by_name rpart db tbl pname w)) = handler w
   \<and> handler (snd (drop_partition db tbl vals del w)) = handler w
   \<and> handler (snd (drop_partition_by_name db tbl pname del w)) = handler w
   \<and> handler (snd (alter_partition db tbl p w)) = handler w"
proof -
  have "h = ThriftHiveMetastoreHandler"
    by (cases h) simp
  then show ?thesis
    by (simp add: query_handler_defs bool_handler_defs void_handler_defs handler_printf)
qed

text \<open>
  Claim C9. Each of the six handlers of return type \<^verbatim>\<open>bool\<close> reaches the end of its
  body without executing a return statement, for every argument and every state: the
  call raises nothing and produces no boolean.
\<close>

theorem bool_handlers_return_no_value:
  "fst (create_database name descr w) = Inr None
   \<and> fst (drop_database name w) = Inr None
   \<and> fst (create_type ty w) = Inr None
   \<and> fst (drop_type name w) = Inr None
   \<and> fst (drop_partition db tbl vals del w) = Inr None
   \<and> fst (drop_partition_by_name db tbl pname del w) = Inr None"
  by (simp add: bool_handler_defs)

text \<open>
  Claim C10. Whatever \<^verbatim>\<open>argc\<close> and \<^verbatim>\<open>argv\<close> are, \<^verbatim>\<open>main\<close> builds a \<^verbatim>\<open>TSimpleServer\<close>
  from a processor around a new handler, a server socket on port 9090, a buffered
  transport factory and a binary protocol factory; it calls \<^verbatim>\<open>serve\<close> on that server
  and returns 0 if \<^verbatim>\<open>serve\<close> returns.
\<close>

theorem main_serves_on_port_9090:
  "main_server argc argv =
     TSimpleServer
       (ThriftHiveMetastoreProcessor (NewThriftHiveMetastoreHandler ThriftHiveMetastoreHandler))
       (TServerSocket 9090) TBufferedTransportFactory TBinaryProtocolFactory
   \<and> main_server argc argv = main_server argc' argv'
   \<and> main serve argc argv = map_option (\<lambda>_. 0) (serve (main_server argc' argv'))"
  by (simp add: main_server_def main_def split: option.split)

text \<open>
  Claim C3, as the code has it. Two calls of \<^verbatim>\<open>add_partition\<close> with the same partition
  both return normally, each with its \<^verbatim>\<open>_return\<close> parameter as the caller supplied it;
  no call raises \<open>AlreadyExists\<close>. The handler stores nothing: after both calls the
  handler object is unchanged and the only trace is the name printed twice.
\<close>

theorem add_partition_twice_returns_twice:
  "fst (add_partition r1 p w) = Inr r1
   \<and> fst (add_partition r2 p (snd (add_partition r1 p w))) = Inr r2
   \<and> handler (snd (add_partition r2 p (snd (add_partition r1 p w)))) = handler w
   \<and> stdout (snd (add_partition r2 p (snd (add_partition r1 p w))))
       = stdout w @ ''add_partition'' @ nl @ ''add_partition'' @ nl"
  by (simp add: add_partition_def handler_printf stdout_printf)

text \<open>
  Claim C3 as stated fails: after the database and the table were created and the
  partition was added once, the second \<^verbatim>\<open>add_partition\<close> with the same value list does
  not fail with \<open>AlreadyExists\<close>.
\<close>

theorem add_partition_second_call_counterexample:
  "fst (add_partition fresh_partition example_partition
         (snd (add_partition fresh_partition example_partition
           (snd (create_table example_table
             (snd (create_database ''d'' [] initial_world)))))))
     \<noteq> Inl AlreadyExists"
  by (simp add: add_partition_def)

text \<open>
  Claim C4, as the code has it. \<^verbatim>\<open>get_partitions\<close> and \<^verbatim>\<open>get_partition_names\<close> do not
  read \<^verbatim>\<open>max_parts\<close> and do not write \<^verbatim>\<open>_return\<close>. Handed an empty result list they
  return the empty list for every table, every state and every limit: the limit 0
  yields an empty list and a limit \<open>k > 0\<close> yields at most \<open>k\<close> entries (none), and so
  does the limit -1, whatever was added to the table before. In general the result is
  the list the caller handed in.
\<close>

theorem get_partitions_ignores_max_parts:
  "fst (get_partitions rparts db tbl m w) = Inr rparts
   \<and> fst (get_partition_names rnames db tbl m w) = Inr rnames
   \<and> fst (get_partitions [] db tbl m w) = Inr []
   \<and> fst (get_partition_names [] db tbl m w) = Inr []"
  by (simp add: get_partitions_def get_partition_names_def)

text \<open>
  Claim C4 as stated fails in its first clause. Table \<^verbatim>\<open>d.t\<close> exists and
  \<^verbatim>\<open>add_partition\<close> of its partition for 2024-01-01 returned normally; then
  \<^verbatim>\<open>get_partitions\<close> with the limit -1 and an empty result list returns the empty list,
  not the list holding that partition, and \<^verbatim>\<open>get_partition_names\<close> with the limit -1
  returns the empty list, not the list holding its name.
\<close>

theorem get_partitions_limit_counterexample:
  "fst (add_partition fresh_partition example_partition
         (snd (create_table example_table
           (snd (create_database ''d'' [] initial_world)))))
     = Inr fresh_partition
   \<and> fst (get_partitions [] ''d'' ''t'' (- 1) world_with_partition) = Inr []
   \<and> fst (get_partitions [] ''d'' ''t'' (- 1) world_with_partition)
       \<noteq> Inr [example_partition]
   \<and> fst (get_partition_names [] ''d'' ''t'' (- 1) world_with_partition) = Inr []
   \<and> fst (get_partition_names [] ''d'' ''t'' (- 1) world_with_partition)
       \<noteq> Inr [''ds=2024-01-01'']"
  by (simp add: add_partition_def get_partitions_def get_partition_names_def)

text \<open>
  Claim C5, as the code has it. \<^verbatim>\<open>drop_database\<close> never fails: for every name and
  every state it raises nothing (neither \<open>NotEmpty\<close> nor \<open>NotFound\<close>), reaches the end
  of its body without a boolean result, leaves the handler object unchanged and prints
  its name.
\<close>

theorem drop_database_never_fails:
  "fst (drop_database name w) = Inr None
   \<and> fst (drop_database name w) \<noteq> Inl NotEmpty
   \<and> fst (drop_database name w) \<noteq> Inl NotFound
   \<and> handler (snd (drop_database name w)) = handler w
   \<and> stdout (snd (drop_database name w)) = stdout w @ ''drop_database'' @ nl"
  by (simp add: drop_database_def handler_printf stdout_printf)

text \<open>
  Claim C5 as stated fails: after database \<^verbatim>\<open>d\<close> and its table \<^verbatim>\<open>t\<close> were created,
  \<^verbatim>\<open>drop_database\<close> on \<^verbatim>\<open>d\<close> does not fail with \<open>NotEmpty\<close>; and in a process in which
  no database was ever created, \<^verbatim>\<open>drop_database\<close> does not fail with \<open>NotFound\<close>.
\<close>

theorem drop_database_counterexample:
  "fst (drop_database ''d''
         (snd (create_table example_table
           (snd (create_database ''d'' [] initial_world)))))
     \<noteq> Inl NotEmpty
   \<and> fst (drop_database ''absent'' initial_world) \<noteq> Inl NotFound"
  by (simp add: drop_database_def)

text \<open>
  Claim C6, as the code has it. \<^verbatim>\<open>create_type\<close> never fails: for every type and every
  state it raises nothing (neither \<open>UnknownReference\<close> nor \<open>CyclicDependency\<close>), reaches
  the end of its body without a boolean result, leaves the handler object unchanged and
  prints its name.
\<close>

theorem create_type_never_fails:
  "fst (create_type ty w) = Inr None
   \<and> fst (create_type ty w) \<noteq> Inl UnknownReference
   \<and> fst (create_type ty w) \<noteq> Inl CyclicDependency
   \<and> handler (snd (create_type ty w)) = handler w
   \<and> stdout (snd (create_type ty w)) = stdout w @ ''create_type'' @ nl"
  by (simp add: create_type_def handler_printf stdout_printf)

text \<open>
  Claim C6 as stated fails: in a process in which no type was ever created,
  \<^verbatim>\<open>create_type\<close> of a type that references an undefined type does not fail with
  \<open>UnknownReference\<close>; and once \<open>A\<close> (which references \<open>B\<close>) was created, the creation
  of \<open>B\<close> (which references \<open>A\<close>) does not fail with \<open>CyclicDependency\<close>, nor does the
  creation of \<open>A\<close> after \<open>B\<close>.
\<close>

theorem create_type_counterexample:
  "fst (create_type type_dangling initial_world) \<noteq> Inl UnknownReference
   \<and> fst (create_type type_B (snd (create_type type_A initial_world)))
       \<noteq> Inl CyclicDependency
   \<and> fst (create_type type_A (snd (create_type type_B initial_world)))
       \<noteq> Inl CyclicDependency"
  by (simp add: create_type_def)

section \<open>Properties of the Identifier Codec\<close>

lemma hex_digit_cases:
  assumes "n < (16::nat)"
  shows "n \<in> {0, 1, 2, 3, 4, 5, 6, 7, 8, 9, 10, 11, 12, 13, 14, 15}"
  using assms by simp arith

lemma unhex_hex_digit: "n < 16 \<Longrightarrow> unhex (hex_digit n) = Some n"
  by (drule hex_digit_cases) (auto simp: unhex_def hex_digit_def)

lemma unreserved_hex_digit: "n < 16 \<Longrightarrow> unreserved (hex_digit n)"
  by (drule hex_digit_cases) (auto simp: unreserved_def hex_digit_def)

lemma unreserved_not_percent: "unreserved c \<Longrightarrow> c \<noteq> CHR ''%''"
  by (auto simp: unreserved_def)

lemma unreserved_not_equals: "unreserved c \<Longrightarrow> c \<noteq> CHR ''=''"
  by (auto simp: unreserved_def)

lemma of_char_div_16: "(of_char c :: nat) div 16 < 16"
proof -
  have "(of_char c :: nat) < 16 * 16" by simp
  then show ?thesis by (rule less_mult_imp_div_less)
qed

lemma char_of_hex_pair: "char_of (16 * ((of_char c :: nat) div 16) + of_char c mod 16) = c"
  by simp

lemma unescape_escape_char:
  "unescape (escape_char c @ s) =
     (case unescape s of Inl e \<Rightarrow> Inl e | Inr t \<Rightarrow> Inr (c # t))"
proof (cases "unreserved c")
  case True
  then show ?thesis
    by (simp add: escape_char_def unreserved_not_percent)
next
  case False
  then show ?thesis
    by (simp add: escape_char_def unhex_hex_digit of_char_div_16 char_of_hex_pair
          split: sum.split)
qed

lemma unescape_escape: "unescape (escape s) = Inr s"
  by (induction s) (simp_all add: escape_def unescape_escape_char)

lemma set_escape: "x \<in> set (escape s) \<Longrightarrow> unreserved x \<or> x = CHR ''%''"
  by (induction s)
     (auto simp: escape_def escape_char_def unreserved_hex_digit of_char_div_16
           split: if_splits)

lemma equals_notin_escape: "CHR ''='' \<notin> set (escape s)"
  using set_escape [of "CHR ''=''" s] unreserved_not_equals by auto

lemma sep_notin_escape: "valid_separator sep \<Longrightarrow> sep \<notin> set (escape s)"
  using set_escape [of sep s] by (auto simp: valid_separator_def)

lemma sep_notin_encode_pair: "valid_separator sep \<Longrightarrow> sep \<notin> set (encode_pair k v)"
  by (auto simp: encode_pair_def sep_notin_escape) (simp add: valid_separator_def)

lemma takeWhile_encode_pair:
  "takeWhile (\<lambda>c. c \<noteq> CHR ''='') (encode_pair k v) = escape k"
proof -
  have "\<forall>x \<in> set (escape k). x \<noteq> CHR ''=''"
    using equals_notin_escape [of k] by auto
  then show ?thesis
    by (simp add: encode_pair_def takeWhile_tail)
qed

lemma dropWhile_encode_pair:
  "dropWhile (\<lambda>c. c \<noteq> CHR ''='') (encode_pair k v) = CHR ''='' # escape v"
proof -
  have "\<forall>x \<in> set (escape k). x \<noteq> CHR ''=''"
    using equals_notin_escape [of k] by auto
  then show ?thesis
    by (simp add: encode_pair_def dropWhile_append3)
qed

lemma decode_pair_encode_pair: "decode_pair k (encode_pair k v) = Inr v"
proof -
  have "CHR ''='' \<in> set (encode_pair k v)"
    by (simp add: encode_pair_def)
  then show ?thesis
    by (simp add: decode_pair_def takeWhile_encode_pair dropWhile_encode_pair
          unescape_escape)
qed

lemma split_on_not_Nil: "split_on sep s \<noteq> []"
  by (induction s) (auto split: list.splits)

lemma split_on_no_sep: "sep \<notin> set x \<Longrightarrow> split_on sep x = [x]"
  by (induction x) auto

lemma split_on_append: "sep \<notin> set x \<Longrightarrow> split_on sep (x @ sep # r) = x # split_on sep r"
  by (induction x) (auto split: list.splits simp: split_on_not_Nil)

lemma split_on_join:
  "xs \<noteq> [] \<Longrightarrow> \<forall>x \<in> set xs. sep \<notin> set x \<Longrightarrow> split_on sep (join sep xs) = xs"
  by (induction sep xs rule: join.induct) (simp_all add: split_on_no_sep split_on_append)

lemma join_eq_Nil: "\<forall>x \<in> set xs. x \<noteq> [] \<Longrightarrow> join sep xs = [] \<longleftrightarrow> xs = []"
  by (induction sep xs rule: join.induct) simp_all

lemma decode_all_encode:
  "length vals = length keys \<Longrightarrow> decode_all keys (map2 encode_pair keys vals) = Inr vals"
  by (induction keys vals rule: list_induct2') (simp_all add: decode_pair_encode_pair)

text \<open>
  Claim C1. The codec round-trips: for every usable separator, every list of
  partition-key names and every list of values of the same length, decoding the encoded
  partition name against the same key names succeeds and yields exactly the values.
\<close>

theorem codec_round_trip:
  assumes "valid_separator sep" and "length vals = length keys"
  shows "decode sep keys (encode sep keys vals) = Inr vals"
proof -
  let ?ps = "map2 encode_pair keys vals"
  have len: "length ?ps = length keys" using assms(2) by simp
  have nosep: "\<forall>x \<in> set ?ps. sep \<notin> set x"
    using assms(1) by (auto simp: sep_notin_encode_pair dest!: set_zip_leftD)
  have nonempty: "\<forall>x \<in> set ?ps. x \<noteq> []"
    by (auto simp: encode_pair_def)
  show ?thesis
  proof (cases "?ps = []")
    case True
    then have "keys = []" using len by auto
    with True assms(2) show ?thesis by (simp add: decode_def encode_def)
  next
    case False
    then have "join sep ?ps \<noteq> []" using join_eq_Nil [OF nonempty] by simp
    moreover have "split_on sep (join sep ?ps) = ?ps"
      using split_on_join [OF False nosep] .
    ultimately show ?thesis
      using len assms(2) by (simp add: decode_def encode_def decode_all_encode)
  qed
qed

theorem codec_round_trip_witness:
  "valid_separator CHR ''/''
   \<and> length [''2024-01-01'', ''a/b=c%d''] = length [''ds'', ''hr'']
   \<and> decode CHR ''/'' [''ds'', ''hr'']
         (encode CHR ''/'' [''ds'', ''hr''] [''2024-01-01'', ''a/b=c%d''])
       = Inr [''2024-01-01'', ''a/b=c%d'']"
proof -
  have sep: "valid_separator CHR ''/''"
    by (simp add: valid_separator_def unreserved_def)
  have len: "length [''2024-01-01'', ''a/b=c%d''] = length [''ds'', ''hr'']"
    by simp
  show ?thesis
    using sep len codec_round_trip [OF sep len] by simp
qed

lemma encode_scenario: "encode CHR ''/'' [''ds''] [''2024-01-01''] = ''ds=2024-01-01''"
  by (simp add: encode_def encode_pair_def escape_def escape_char_def unreserved_def)



end
